theory Spec2Isabelle
  imports Main
begin

section \<open>Proof obligations (src/formal\_proof\_system.py, lines 17--36)\<close>

text \<open>
  \<^verbatim>\<open>class ProofStatus(Enum)\<close>: four members. The display glyphs carried as enum values
  play no part in any decision and are left out.
\<close>

datatype ProofStatus = PROVEN | REFUTED | UNKNOWN | AXIOM

text \<open>
  \<^verbatim>\<open>@dataclass class ProofObligation\<close>. The type \<open>'e\<close> is the type of symbolic
  expressions (SymPy objects in the source).
\<close>

record 'e ProofObligation =
  name :: string
  hypothesis :: 'e
  conclusion :: 'e
  proof_method :: string
  status :: ProofStatus
  proof_steps :: "string list"

text \<open>
  The generated \<^verbatim>\<open>__init__\<close> followed by \<^verbatim>\<open>__post_init__\<close>. The two trailing
  parameters have defaults: \<^verbatim>\<open>status = ProofStatus.UNKNOWN\<close> and
  \<^verbatim>\<open>proof_steps = None\<close>; \<open>None\<close> below is an argument left out (for
  \<open>proof_steps\<close> also an explicit Python \<^verbatim>\<open>None\<close>), which \<^verbatim>\<open>__post_init__\<close>
  replaces by a fresh empty list.
\<close>

definition post_init :: "string list option \<Rightarrow> string list" where
  "post_init ps = (case ps of None \<Rightarrow> [] | Some l \<Rightarrow> l)"

definition ProofObligation_init ::
  "string \<Rightarrow> 'e \<Rightarrow> 'e \<Rightarrow> string \<Rightarrow> ProofStatus option \<Rightarrow> string list option \<Rightarrow> 'e ProofObligation"
where
  "ProofObligation_init n h c m st ps =
     \<lparr> name = n, hypothesis = h, conclusion = c, proof_method = m,
       status = (case st of None \<Rightarrow> UNKNOWN | Some v \<Rightarrow> v),
       proof_steps = post_init ps \<rparr>"

section \<open>Exceptions and mutable state\<close>

text \<open>
  A Python exception of class \<^verbatim>\<open>Exception\<close> (or a subclass). Printing one,
  \<^verbatim>\<open>f"{e}"\<close>, runs its \<^verbatim>\<open>__str__\<close> method, which is code of whoever raised it:
  \<open>Exception m\<close> prints as \<open>m\<close>, and \<open>Unprintable e'\<close> is an exception whose
  \<^verbatim>\<open>__str__\<close> raises \<open>e'\<close>. These are the errors \<^verbatim>\<open>except Exception\<close> names;
  signals outside that class (interpreter exit, keyboard interrupt) are not part of the
  model.
\<close>

datatype exn = Exception string | Unprintable exn

fun message :: "exn \<Rightarrow> exn + string" where
  "message (Exception m) = Inr m"
| "message (Unprintable e) = Inl e"

text \<open>
  The state a strategy call can change: the obligation it was handed, which it mutates
  in place, and \<open>world\<close>, whatever the caller's probes read and write when they are
  invoked. The four oracle-backed strategies never touch \<open>world\<close>.
\<close>

record ('e, 'w) machine =
  obligation :: "'e ProofObligation"
  world :: 'w

text \<open>
  A statement sequence: from a state it either completes with a value or raises, and in
  both cases leaves the state as mutated so far.
\<close>

type_synonym ('a, 'e, 'w) prog = "('e, 'w) machine \<Rightarrow> (exn + 'a) \<times> ('e, 'w) machine"

definition ret :: "'a \<Rightarrow> ('a, 'e, 'w) prog" where
  "ret x = (\<lambda>s. (Inr x, s))"

definition call :: "exn + 'a \<Rightarrow> ('a, 'e, 'w) prog" where
  "call r = (\<lambda>s. (r, s))"

definition andthen :: "('a, 'e, 'w) prog \<Rightarrow> ('a \<Rightarrow> ('b, 'e, 'w) prog) \<Rightarrow> ('b, 'e, 'w) prog" where
  "andthen m f = (\<lambda>s. case m s of (Inl e, s') \<Rightarrow> (Inl e, s') | (Inr x, s') \<Rightarrow> f x s')"

definition seq :: "(unit, 'e, 'w) prog \<Rightarrow> ('b, 'e, 'w) prog \<Rightarrow> ('b, 'e, 'w) prog" where
  "seq m k = andthen m (\<lambda>_. k)"

definition try_except :: "('a, 'e, 'w) prog \<Rightarrow> (exn \<Rightarrow> ('a, 'e, 'w) prog) \<Rightarrow> ('a, 'e, 'w) prog" where
  "try_except body handler =
     (\<lambda>s. case body s of (Inl e, s') \<Rightarrow> handler e s' | (Inr x, s') \<Rightarrow> (Inr x, s'))"

definition get_hypothesis :: "('e, 'e, 'w) prog" where
  "get_hypothesis = (\<lambda>s. (Inr (hypothesis (obligation s)), s))"

definition get_conclusion :: "('e, 'e, 'w) prog" where
  "get_conclusion = (\<lambda>s. (Inr (conclusion (obligation s)), s))"

definition set_status :: "ProofStatus \<Rightarrow> (unit, 'e, 'w) prog" where
  "set_status st = (\<lambda>s. (Inr (), s\<lparr>obligation := (obligation s)\<lparr>status := st\<rparr>\<rparr>))"

definition append_step :: "string \<Rightarrow> (unit, 'e, 'w) prog" where
  "append_step txt =
     (\<lambda>s. (Inr (), s\<lparr>obligation := (obligation s)\<lparr>proof_steps := proof_steps (obligation s) @ [txt]\<rparr>\<rparr>))"

text \<open>
  A caller-supplied probe is opaque code: run in a world it returns a value or raises,
  and leaves a world behind.
\<close>

type_synonym 'w probe = "'w \<Rightarrow> (exn + bool) \<times> 'w"

definition invoke :: "'w probe \<Rightarrow> (bool, 'e, 'w) prog" where
  "invoke p = (\<lambda>s. case p (world s) of (r, w') \<Rightarrow> (r, s\<lparr>world := w'\<rparr>))"

section \<open>The symbolic computation oracle\<close>

text \<open>
  SymPy is not part of the repository; its functions are parameters of the model. Each
  one is a function (the same arguments give the same answer) that returns an expression
  or raises. \<open>sub\<close> is the Python operator \<^verbatim>\<open>-\<close> on two expressions; \<open>eq_zero\<close> is the
  comparison \<^verbatim>\<open>== 0\<close> (SymPy's \<^verbatim>\<open>S.Zero\<close> is the same object the integer \<open>0\<close> is
  converted to, so \<^verbatim>\<open>== S.Zero\<close> is the same test); \<open>is_constant\<close> is the method
  \<^verbatim>\<open>.is_constant()\<close>, whose answer is \<^verbatim>\<open>True\<close>, \<^verbatim>\<open>False\<close> or \<^verbatim>\<open>None\<close>
  (undetermined); \<open>str\<close> is the text an f-string prints for an expression.
  Comparing with zero and printing are taken to succeed.
\<close>

datatype 'e integration_range = Indefinite 'e | Definite 'e 'e 'e

record 'e symbolic_oracle =
  sub :: "'e \<Rightarrow> 'e \<Rightarrow> exn + 'e"
  simplify :: "'e \<Rightarrow> exn + 'e"
  expand :: "'e \<Rightarrow> exn + 'e"
  factor :: "'e \<Rightarrow> exn + 'e"
  limit :: "'e \<Rightarrow> 'e \<Rightarrow> 'e \<Rightarrow> exn + 'e"
  diff :: "'e \<Rightarrow> 'e \<Rightarrow> exn + 'e"
  integrate :: "'e \<Rightarrow> 'e integration_range \<Rightarrow> exn + 'e"
  eq_zero :: "'e \<Rightarrow> bool"
  is_constant :: "'e \<Rightarrow> exn + bool option"
  str :: "'e \<Rightarrow> string"

text \<open>Python truthiness of the answer of \<^verbatim>\<open>.is_constant()\<close>: \<^verbatim>\<open>None\<close> is falsy.\<close>

definition truthy :: "bool option \<Rightarrow> bool" where
  "truthy r = (r = Some True)"

text \<open>The non-ASCII characters of the source's log texts, as their UTF-8 bytes.\<close>

definition check_mark :: string where
  "check_mark = [CHR 0xE2, CHR 0x9C, CHR 0x93]"

definition right_arrow :: string where
  "right_arrow = [CHR 0xE2, CHR 0x86, CHR 0x92]"

definition integral_sign :: string where
  "integral_sign = [CHR 0xE2, CHR 0x88, CHR 0xAB]"

section \<open>The six verification strategies (lines 66--228)\<close>

subsection \<open>prove\_by\_symbolic\_simplification\<close>

text \<open>
  The body of the \<^verbatim>\<open>try\<close> block. The bound name \<open>diff\<close> is the source's local
  variable, which hides SymPy's function of that name there as it does here.
\<close>

definition prove_by_symbolic_simplification_body :: "'e symbolic_oracle \<Rightarrow> (bool, 'e, 'w) prog" where
  "prove_by_symbolic_simplification_body orc =
     andthen get_hypothesis (\<lambda>h.
     andthen get_conclusion (\<lambda>c.
     andthen (call (sub orc h c)) (\<lambda>d0.
     andthen (call (simplify orc d0)) (\<lambda>diff.
       if eq_zero orc diff \<or> eq_zero orc diff then
         seq (set_status PROVEN)
        (seq (append_step (''Simplified difference to: '' @ str orc diff))
        (seq (append_step (''Since '' @ str orc diff @ '' = 0, equality holds''))
             (ret True)))
       else
         andthen (call (expand orc diff)) (\<lambda>expanded_diff.
           if eq_zero orc expanded_diff then
             seq (set_status PROVEN)
            (seq (append_step (''Expanded to: '' @ str orc expanded_diff))
                 (ret True))
           else
             andthen (call (factor orc diff)) (\<lambda>factored_diff.
               if eq_zero orc factored_diff then
                 seq (set_status PROVEN)
                (seq (append_step (''Factored to: '' @ str orc factored_diff))
                     (ret True))
               else
                 seq (set_status REFUTED)
                (seq (append_step (''Cannot simplify to zero: '' @ str orc diff))
                     (ret False))))))))"

definition prove_by_symbolic_simplification_handler :: "exn \<Rightarrow> (bool, 'e, 'w) prog" where
  "prove_by_symbolic_simplification_handler e =
     seq (set_status UNKNOWN)
    (andthen (call (message e)) (\<lambda>m.
     seq (append_step (''Error in simplification: '' @ m))
         (ret False)))"

definition prove_by_symbolic_simplification :: "'e symbolic_oracle \<Rightarrow> (bool, 'e, 'w) prog" where
  "prove_by_symbolic_simplification orc =
     try_except (prove_by_symbolic_simplification_body orc)
                prove_by_symbolic_simplification_handler"

subsection \<open>prove\_by\_mathematical\_induction\<close>

definition prove_by_mathematical_induction_body ::
  "'w probe \<Rightarrow> 'w probe \<Rightarrow> (bool, 'e, 'w) prog"
where
  "prove_by_mathematical_induction_body base_case inductive_step =
     andthen (invoke base_case) (\<lambda>b.
       if \<not> b then
         seq (set_status REFUTED)
        (seq (append_step ''Base case FAILED'')
             (ret False))
       else
         seq (append_step (''Base case: '' @ check_mark @ '' PROVEN''))
        (andthen (invoke inductive_step) (\<lambda>i.
           if \<not> i then
             seq (set_status REFUTED)
            (seq (append_step ''Inductive step FAILED'')
                 (ret False))
           else
             seq (append_step (''Inductive step: '' @ check_mark @ '' PROVEN''))
            (seq (set_status PROVEN)
            (seq (append_step (''By mathematical induction: '' @ check_mark @ '' PROVEN''))
                 (ret True))))))"

definition prove_by_mathematical_induction_handler :: "exn \<Rightarrow> (bool, 'e, 'w) prog" where
  "prove_by_mathematical_induction_handler e =
     seq (set_status UNKNOWN)
    (andthen (call (message e)) (\<lambda>m.
     seq (append_step (''Induction error: '' @ m))
         (ret False)))"

definition prove_by_mathematical_induction ::
  "'w probe \<Rightarrow> 'w probe \<Rightarrow> (bool, 'e, 'w) prog"
where
  "prove_by_mathematical_induction base_case inductive_step =
     try_except (prove_by_mathematical_induction_body base_case inductive_step)
                prove_by_mathematical_induction_handler"

subsection \<open>prove\_by\_contradiction\<close>

text \<open>
  The assumption is any value; \<open>fmt\<close> is what printing it in an f-string does: its
  \<^verbatim>\<open>__str__\<close> returns a text or raises. The status is assigned before the first log
  entry is formatted. The predicate is a probe that takes the assumption.
\<close>

definition prove_by_contradiction_body ::
  "('a \<Rightarrow> exn + string) \<Rightarrow> 'a \<Rightarrow> ('a \<Rightarrow> 'w probe) \<Rightarrow> (bool, 'e, 'w) prog"
where
  "prove_by_contradiction_body fmt assumption leads_to_contradiction =
     andthen (invoke (leads_to_contradiction assumption)) (\<lambda>contradiction.
       if contradiction then
         seq (set_status PROVEN)
        (andthen (call (fmt assumption)) (\<lambda>shown.
         seq (append_step (''Assumed: '' @ shown))
        (seq (append_step ''Derived contradiction'')
        (seq (append_step ''Therefore negation must be false'')
             (ret True)))))
       else
         seq (set_status UNKNOWN)
             (ret False))"

definition prove_by_contradiction_handler :: "exn \<Rightarrow> (bool, 'e, 'w) prog" where
  "prove_by_contradiction_handler e =
     seq (set_status UNKNOWN)
    (andthen (call (message e)) (\<lambda>m.
     seq (append_step (''Error: '' @ m))
         (ret False)))"

definition prove_by_contradiction ::
  "('a \<Rightarrow> exn + string) \<Rightarrow> 'a \<Rightarrow> ('a \<Rightarrow> 'w probe) \<Rightarrow> (bool, 'e, 'w) prog"
where
  "prove_by_contradiction fmt assumption leads_to_contradiction =
     try_except (prove_by_contradiction_body fmt assumption leads_to_contradiction)
                prove_by_contradiction_handler"

subsection \<open>prove\_limit\<close>

definition prove_limit_body :: "'e symbolic_oracle \<Rightarrow> 'e \<Rightarrow> 'e \<Rightarrow> 'e \<Rightarrow> 'e \<Rightarrow> (bool, 'e, 'w) prog" where
  "prove_limit_body orc expression variable limit_point expected_value =
     andthen (call (limit orc expression variable limit_point)) (\<lambda>computed_limit.
     andthen (call (sub orc computed_limit expected_value)) (\<lambda>d0.
     andthen (call (simplify orc d0)) (\<lambda>d.
       if eq_zero orc d then
         seq (set_status PROVEN)
        (seq (append_step (''lim '' @ str orc variable @ right_arrow @ str orc limit_point
                           @ '' '' @ str orc expression @ '' = '' @ str orc computed_limit))
        (seq (append_step (''Expected: '' @ str orc expected_value))
        (seq (append_step (''Match: '' @ check_mark))
             (ret True))))
       else
         seq (set_status REFUTED)
        (seq (append_step (''Limit is '' @ str orc computed_limit @ '', expected ''
                           @ str orc expected_value))
             (ret False)))))"

definition prove_limit_handler :: "exn \<Rightarrow> (bool, 'e, 'w) prog" where
  "prove_limit_handler e =
     seq (set_status UNKNOWN)
    (andthen (call (message e)) (\<lambda>m.
     seq (append_step (''Limit computation error: '' @ m))
         (ret False)))"

definition prove_limit :: "'e symbolic_oracle \<Rightarrow> 'e \<Rightarrow> 'e \<Rightarrow> 'e \<Rightarrow> 'e \<Rightarrow> (bool, 'e, 'w) prog" where
  "prove_limit orc expression variable limit_point expected_value =
     try_except (prove_limit_body orc expression variable limit_point expected_value)
                prove_limit_handler"

subsection \<open>prove\_derivative\<close>

definition prove_derivative_body :: "'e symbolic_oracle \<Rightarrow> 'e \<Rightarrow> 'e \<Rightarrow> 'e \<Rightarrow> (bool, 'e, 'w) prog" where
  "prove_derivative_body orc function variable expected_derivative =
     andthen (call (diff orc function variable)) (\<lambda>computed_derivative.
     andthen (call (sub orc computed_derivative expected_derivative)) (\<lambda>d0.
     andthen (call (simplify orc d0)) (\<lambda>d.
       if eq_zero orc d then
         seq (set_status PROVEN)
        (seq (append_step (''d/d'' @ str orc variable @ '' ('' @ str orc function @ '') = ''
                           @ str orc computed_derivative))
        (seq (append_step (''Expected: '' @ str orc expected_derivative))
        (seq (append_step (''Match: '' @ check_mark))
             (ret True))))
       else
         seq (set_status REFUTED)
             (ret False))))"

definition prove_derivative_handler :: "exn \<Rightarrow> (bool, 'e, 'w) prog" where
  "prove_derivative_handler e =
     seq (set_status UNKNOWN)
         (ret False)"

definition prove_derivative :: "'e symbolic_oracle \<Rightarrow> 'e \<Rightarrow> 'e \<Rightarrow> 'e \<Rightarrow> (bool, 'e, 'w) prog" where
  "prove_derivative orc function variable expected_derivative =
     try_except (prove_derivative_body orc function variable expected_derivative)
                prove_derivative_handler"

subsection \<open>prove\_integral\<close>

text \<open>
  \<open>bounds\<close> is \<^verbatim>\<open>None\<close> or a pair \<^verbatim>\<open>(lower, upper)\<close>. The test
  \<^verbatim>\<open>diff == 0 or (bounds is None and diff.is_constant())\<close> evaluates from the left
  and stops early, so \<^verbatim>\<open>.is_constant()\<close> is called only when the residual is not
  zero and the bounds are absent.
\<close>

definition prove_integral_body ::
  "'e symbolic_oracle \<Rightarrow> 'e \<Rightarrow> 'e \<Rightarrow> ('e \<times> 'e) option \<Rightarrow> 'e \<Rightarrow> (bool, 'e, 'w) prog"
where
  "prove_integral_body orc integrand variable bounds expected_value =
     andthen (call (case bounds of
                      None \<Rightarrow> integrate orc integrand (Indefinite variable)
                    | Some (lower, upper) \<Rightarrow> integrate orc integrand (Definite variable lower upper)))
       (\<lambda>computed_integral.
     andthen (call (sub orc computed_integral expected_value)) (\<lambda>d0.
     andthen (call (simplify orc d0)) (\<lambda>diff.
     andthen (if eq_zero orc diff then ret True
              else if bounds = None then andthen (call (is_constant orc diff)) (\<lambda>r. ret (truthy r))
              else ret False) (\<lambda>accept.
       if accept then
         seq (set_status PROVEN)
        (seq (append_step (integral_sign @ '' '' @ str orc integrand @ '' d'' @ str orc variable
                           @ '' = '' @ str orc computed_integral))
        (seq (append_step (''Expected: '' @ str orc expected_value))
             (ret True)))
       else
         seq (set_status REFUTED)
             (ret False)))))"

definition prove_integral_handler :: "exn \<Rightarrow> (bool, 'e, 'w) prog" where
  "prove_integral_handler e =
     seq (set_status UNKNOWN)
         (ret False)"

definition prove_integral ::
  "'e symbolic_oracle \<Rightarrow> 'e \<Rightarrow> 'e \<Rightarrow> ('e \<times> 'e) option \<Rightarrow> 'e \<Rightarrow> (bool, 'e, 'w) prog"
where
  "prove_integral orc integrand variable bounds expected_value =
     try_except (prove_integral_body orc integrand variable bounds expected_value)
                prove_integral_handler"

section \<open>A small exact oracle for evaluation\<close>

text \<open>
  To run the strategies on concrete inputs, an oracle over polynomials in one variable
  with integer coefficients, lowest degree first: \<open>[5, 0, 1]\<close> is \<open>x\<^sup>2 + 5\<close>. It is a
  stand-in for SymPy on this fragment only; no theorem about the strategies depends on
  it. Subtraction leaves trailing zero coefficients in place, \<open>simplify\<close>, \<open>expand\<close> and
  \<open>factor\<close> remove them, and the zero test is syntactic. An antiderivative whose
  coefficients are not integers is outside the fragment and raises.
\<close>

fun strip :: "int list \<Rightarrow> int list" where
  "strip [] = []"
| "strip (a # p) = (case strip p of [] \<Rightarrow> (if a = 0 then [] else [a]) | b # r \<Rightarrow> a # b # r)"

fun psub :: "int list \<Rightarrow> int list \<Rightarrow> int list" where
  "psub [] q = map uminus q"
| "psub (a # p) [] = a # p"
| "psub (a # p) (b # q) = (a - b) # psub p q"

fun peval :: "int list \<Rightarrow> int \<Rightarrow> int" where
  "peval [] c = 0"
| "peval (a # p) c = a + c * peval p c"

fun pderiv_from :: "int \<Rightarrow> int list \<Rightarrow> int list" where
  "pderiv_from k [] = []"
| "pderiv_from k (a # p) = (k * a) # pderiv_from (k + 1) p"

definition pderiv :: "int list \<Rightarrow> int list" where
  "pderiv p = (case p of [] \<Rightarrow> [] | a # q \<Rightarrow> pderiv_from 1 q)"

fun pint_from :: "int \<Rightarrow> int list \<Rightarrow> exn + int list" where
  "pint_from k [] = Inr []"
| "pint_from k (a # p) =
     (if a mod k \<noteq> 0 then Inl (Exception ''coefficient is not an integer'')
      else case pint_from (k + 1) p of Inl e \<Rightarrow> Inl e | Inr r \<Rightarrow> Inr ((a div k) # r))"

definition pint :: "int list \<Rightarrow> exn + int list" where
  "pint p = (case pint_from 1 p of Inl e \<Rightarrow> Inl e | Inr r \<Rightarrow> Inr (0 # r))"

definition const_of :: "int list \<Rightarrow> int option" where
  "const_of p = (case strip p of [] \<Rightarrow> Some 0 | [c] \<Rightarrow> Some c | _ \<Rightarrow> None)"

definition plimit :: "int list \<Rightarrow> int list \<Rightarrow> int list \<Rightarrow> exn + int list" where
  "plimit p v point =
     (case const_of point of
        None \<Rightarrow> Inl (Exception ''limit point is not a number'')
      | Some c \<Rightarrow> Inr [peval p c])"

definition pintegrate :: "int list \<Rightarrow> int list integration_range \<Rightarrow> exn + int list" where
  "pintegrate p r =
     (case r of
        Indefinite v \<Rightarrow> pint p
      | Definite v lower upper \<Rightarrow>
          (case (const_of lower, const_of upper) of
             (Some a, Some b) \<Rightarrow>
               (case pint p of Inl e \<Rightarrow> Inl e | Inr q \<Rightarrow> Inr [peval q b - peval q a])
           | _ \<Rightarrow> Inl (Exception ''bound is not a number'')))"

fun show_nat :: "nat \<Rightarrow> string" where
  "show_nat n =
     (if n < 10 then [''0123456789'' ! n]
      else show_nat (n div 10) @ [''0123456789'' ! (n mod 10)])"

declare show_nat.simps [simp del]

definition show_int :: "int \<Rightarrow> string" where
  "show_int i = (if i < 0 then ''-'' @ show_nat (nat (- i)) else show_nat (nat i))"

fun show_coeffs :: "int list \<Rightarrow> string" where
  "show_coeffs [] = []"
| "show_coeffs [a] = show_int a"
| "show_coeffs (a # b # p) = show_int a @ '', '' @ show_coeffs (b # p)"

definition show_poly :: "int list \<Rightarrow> string" where
  "show_poly p = ''['' @ show_coeffs p @ '']''"

definition poly_oracle :: "int list symbolic_oracle" where
  "poly_oracle =
     \<lparr> sub = (\<lambda>p q. Inr (psub p q)),
       simplify = (\<lambda>p. Inr (strip p)),
       expand = (\<lambda>p. Inr (strip p)),
       factor = (\<lambda>p. Inr (strip p)),
       limit = plimit,
       diff = (\<lambda>p v. Inr (pderiv p)),
       integrate = pintegrate,
       eq_zero = (\<lambda>p. p = []),
       is_constant = (\<lambda>p. Inr (Some (length (strip p) \<le> 1))),
       str = show_poly \<rparr>"

text \<open>An oracle every call of which faults, and the variable \<open>x\<close>.\<close>

definition unsupported :: exn where
  "unsupported = Exception ''unsupported''"

definition faulty_oracle :: "int list symbolic_oracle" where
  "faulty_oracle =
     \<lparr> sub = (\<lambda>p q. Inl unsupported),
       simplify = (\<lambda>p. Inl unsupported),
       expand = (\<lambda>p. Inl unsupported),
       factor = (\<lambda>p. Inl unsupported),
       limit = (\<lambda>p v q. Inl unsupported),
       diff = (\<lambda>p v. Inl unsupported),
       integrate = (\<lambda>p r. Inl unsupported),
       eq_zero = (\<lambda>p. p = []),
       is_constant = (\<lambda>p. Inl unsupported),
       str = show_poly \<rparr>"

text \<open>
  Two weaker variants, to exercise the later stages of the simplification strategy:
  \<open>lazy_oracle\<close> has a \<open>simplify\<close> that returns its argument unchanged, and
  \<open>lazier_oracle\<close> has an \<open>expand\<close> that does so too.
\<close>

definition lazy_oracle :: "int list symbolic_oracle" where
  "lazy_oracle = poly_oracle\<lparr>simplify := (\<lambda>p. Inr p)\<rparr>"

definition lazier_oracle :: "int list symbolic_oracle" where
  "lazier_oracle = poly_oracle\<lparr>simplify := (\<lambda>p. Inr p), expand := (\<lambda>p. Inr p)\<rparr>"

text \<open>
  An oracle whose subtraction and limit raise an exception that cannot be printed.
\<close>

definition hostile_oracle :: "int list symbolic_oracle" where
  "hostile_oracle =
     poly_oracle\<lparr>sub := (\<lambda>p q. Inl (Unprintable unsupported)),
                 limit := (\<lambda>p v q. Inl (Unprintable unsupported))\<rparr>"

definition X :: "int list" where
  "X = [0, 1]"

text \<open>
  A fresh obligation with hypothesis \<open>h\<close> and conclusion \<open>c\<close>, in a world that counts
  probe invocations.
\<close>

definition fresh :: "int list \<Rightarrow> int list \<Rightarrow> (int list, nat) machine" where
  "fresh h c =
     \<lparr> obligation = ProofObligation_init ''claim'' h c ''method'' None None, world = 0 \<rparr>"

text \<open>
  Probes that count their invocations in the world and answer a fixed value or raise.
  \<open>raising_unprintable\<close> raises an exception whose \<^verbatim>\<open>__str__\<close> raises in turn.
\<close>

definition answering :: "bool \<Rightarrow> nat probe" where
  "answering b = (\<lambda>w. (Inr b, Suc w))"

definition raising :: "nat probe" where
  "raising = (\<lambda>w. (Inl (Exception ''probe failed''), Suc w))"

definition raising_unprintable :: "nat probe" where
  "raising_unprintable = (\<lambda>w. (Inl (Unprintable (Exception ''cannot print'')), Suc w))"

text \<open>
  Two predicates for \<open>prove_by_contradiction\<close>: one finds a contradiction for every
  assumption, the other raises an exception that cannot be printed.
\<close>

definition contradicts :: "int list \<Rightarrow> nat probe" where
  "contradicts a = answering True"

definition fails_unprintably :: "int list \<Rightarrow> nat probe" where
  "fails_unprintably a = raising_unprintable"

text \<open>
  An assumption that prints with the given function, and one whose \<^verbatim>\<open>__str__\<close>
  raises.
\<close>

definition printed :: "('a \<Rightarrow> string) \<Rightarrow> 'a \<Rightarrow> exn + string" where
  "printed f a = Inr (f a)"

definition unprintable :: "'a \<Rightarrow> exn + string" where
  "unprintable a = Inl (Exception ''cannot print'')"

section \<open>Unfolding the definitions\<close>

lemmas prog_defs =
  ret_def call_def andthen_def seq_def get_hypothesis_def get_conclusion_def
  set_status_def append_step_def invoke_def

section \<open>Exceptions at the strategy boundary\<close>

lemmas simplification_defs =
  prove_by_symbolic_simplification_def prove_by_symbolic_simplification_body_def
  prove_by_symbolic_simplification_handler_def
lemmas induction_defs =
  prove_by_mathematical_induction_def prove_by_mathematical_induction_body_def
  prove_by_mathematical_induction_handler_def
lemmas contradiction_defs =
  prove_by_contradiction_def prove_by_contradiction_body_def prove_by_contradiction_handler_def
lemmas limit_defs = prove_limit_def prove_limit_body_def prove_limit_handler_def
lemmas derivative_defs = prove_derivative_def prove_derivative_body_def prove_derivative_handler_def
lemmas integral_defs = prove_integral_def prove_integral_body_def prove_integral_handler_def

text \<open>
  What the \<^verbatim>\<open>try\<close>/\<^verbatim>\<open>except\<close> wrapper does when the body raised and when it
  returned.
\<close>

lemma try_except_raised:
  assumes "fst (body s) = Inl e"
  shows "try_except body handler s = handler e (snd (body s))"
  using assms by (auto simp: try_except_def split: prod.splits sum.splits)

lemma try_except_returned:
  assumes "fst (body s) = Inr x"
  shows "try_except body handler s = (Inr x, snd (body s))"
  using assms by (auto simp: try_except_def split: prod.splits sum.splits)

text \<open>
  Every handler assigns \<open>UNKNOWN\<close> first. The four that log the error then print the
  caught exception, and return \<open>False\<close> only if that printing succeeds; the handlers of
  \<open>prove_derivative\<close> and \<open>prove_integral\<close> print nothing and always return \<open>False\<close>.
\<close>

lemma simplification_handler:
  "status (obligation (snd (prove_by_symbolic_simplification_handler e s))) = UNKNOWN
   \<and> fst (prove_by_symbolic_simplification_handler e s)
       = (case message e of Inl e' \<Rightarrow> Inl e' | Inr m \<Rightarrow> Inr False)"
  by (simp add: prove_by_symbolic_simplification_handler_def prog_defs split: sum.splits)

lemma induction_handler:
  "status (obligation (snd (prove_by_mathematical_induction_handler e s))) = UNKNOWN
   \<and> fst (prove_by_mathematical_induction_handler e s)
       = (case message e of Inl e' \<Rightarrow> Inl e' | Inr m \<Rightarrow> Inr False)"
  by (simp add: prove_by_mathematical_induction_handler_def prog_defs split: sum.splits)

lemma contradiction_handler:
  "status (obligation (snd (prove_by_contradiction_handler e s))) = UNKNOWN
   \<and> fst (prove_by_contradiction_handler e s)
       = (case message e of Inl e' \<Rightarrow> Inl e' | Inr m \<Rightarrow> Inr False)"
  by (simp add: prove_by_contradiction_handler_def prog_defs split: sum.splits)

lemma limit_handler:
  "status (obligation (snd (prove_limit_handler e s))) = UNKNOWN
   \<and> fst (prove_limit_handler e s)
       = (case message e of Inl e' \<Rightarrow> Inl e' | Inr m \<Rightarrow> Inr False)"
  by (simp add: prove_limit_handler_def prog_defs split: sum.splits)

lemma derivative_handler:
  "status (obligation (snd (prove_derivative_handler e s))) = UNKNOWN
   \<and> fst (prove_derivative_handler e s) = Inr False"
  by (simp add: prove_derivative_handler_def prog_defs)

lemma integral_handler:
  "status (obligation (snd (prove_integral_handler e s))) = UNKNOWN
   \<and> fst (prove_integral_handler e s) = Inr False"
  by (simp add: prove_integral_handler_def prog_defs)

lemma try_except_logging:
  assumes h: "\<And>e s'. status (obligation (snd (handler e s'))) = UNKNOWN
                      \<and> fst (handler e s')
                          = (case message e of Inl e' \<Rightarrow> Inl e' | Inr m \<Rightarrow> Inr False)"
  shows "(\<forall>e. fst (body s) = Inl e
             \<longrightarrow> status (obligation (snd (try_except body handler s))) = UNKNOWN)
         \<and> ((\<forall>e. fst (body s) = Inl e \<longrightarrow> (\<exists>m. message e = Inr m))
             \<longrightarrow> (\<exists>b. fst (try_except body handler s) = Inr b))"
proof (intro conjI allI impI)
  fix e assume "fst (body s) = Inl e"
  then show "status (obligation (snd (try_except body handler s))) = UNKNOWN"
    by (simp add: try_except_raised h)
next
  assume p: "\<forall>e. fst (body s) = Inl e \<longrightarrow> (\<exists>m. message e = Inr m)"
  show "\<exists>b. fst (try_except body handler s) = Inr b"
  proof (cases "fst (body s)")
    case (Inl e)
    with p obtain m where "message e = Inr m" by blast
    with Inl show ?thesis by (auto simp: try_except_raised h)
  next
    case (Inr x)
    then show ?thesis by (simp add: try_except_returned)
  qed
qed

lemma try_except_silent:
  assumes h: "\<And>e s'. status (obligation (snd (handler e s'))) = UNKNOWN
                      \<and> fst (handler e s') = Inr False"
  shows "(\<forall>e. fst (body s) = Inl e
             \<longrightarrow> status (obligation (snd (try_except body handler s))) = UNKNOWN)
         \<and> (\<exists>b. fst (try_except body handler s) = Inr b)"
proof (intro conjI allI impI)
  fix e assume "fst (body s) = Inl e"
  then show "status (obligation (snd (try_except body handler s))) = UNKNOWN"
    by (simp add: try_except_raised h)
next
  show "\<exists>b. fst (try_except body handler s) = Inr b"
  proof (cases "fst (body s)")
    case (Inl e)
    then show ?thesis by (auto simp: try_except_raised h)
  next
    case (Inr x)
    then show ?thesis by (simp add: try_except_returned)
  qed
qed

text \<open>
  C1 says that no call raises past its own boundary. A caller-supplied probe that raises
  an exception whose \<^verbatim>\<open>__str__\<close> raises refutes it: the handler of
  \<open>prove_by_mathematical_induction\<close> assigns \<open>UNKNOWN\<close>, then formats
  \<^verbatim>\<open>f"Induction error: {e}"\<close>, and the exception raised by that formatting leaves
  the call. Nothing is returned and nothing is logged.
\<close>

theorem unprintable_exception_escapes_counterexample:
  "prove_by_mathematical_induction raising_unprintable (answering True) (fresh [] [])
   = (Inl (Exception ''cannot print''), (fresh [] [])\<lparr>world := 1\<rparr>)"
  by (simp add: induction_defs prog_defs try_except_def raising_unprintable_def fresh_def
        ProofObligation_init_def post_init_def)

text \<open>
  C1, as the code has it. For each of the six entry points and every input: when an
  exception occurred inside the body of the call, the obligation's final status is
  \<open>UNKNOWN\<close>, whether or not the call then returns; and the call returns a boolean,
  raising nothing past its boundary, whenever the exception caught, if any, can be
  printed for the log. \<open>prove_derivative\<close> and \<open>prove_integral\<close>, which do not print
  it, return a boolean on every input.
\<close>

theorem entry_points_unknown_and_return:
  "((\<forall>e. fst (prove_by_symbolic_simplification_body orc s) = Inl e
         \<longrightarrow> status (obligation (snd (prove_by_symbolic_simplification orc s))) = UNKNOWN)
    \<and> ((\<forall>e. fst (prove_by_symbolic_simplification_body orc s) = Inl e
              \<longrightarrow> (\<exists>m. message e = Inr m))
        \<longrightarrow> (\<exists>b. fst (prove_by_symbolic_simplification orc s) = Inr b)))
 \<and> ((\<forall>e. fst (prove_by_mathematical_induction_body base_case inductive_step s) = Inl e
         \<longrightarrow> status (obligation (snd (prove_by_mathematical_induction base_case inductive_step s)))
             = UNKNOWN)
    \<and> ((\<forall>e. fst (prove_by_mathematical_induction_body base_case inductive_step s) = Inl e
              \<longrightarrow> (\<exists>m. message e = Inr m))
        \<longrightarrow> (\<exists>b. fst (prove_by_mathematical_induction base_case inductive_step s) = Inr b)))
 \<and> ((\<forall>e. fst (prove_by_contradiction_body fmt assumption leads_to_contradiction s) = Inl e
         \<longrightarrow> status (obligation (snd (prove_by_contradiction fmt assumption
                                        leads_to_contradiction s))) = UNKNOWN)
    \<and> ((\<forall>e. fst (prove_by_contradiction_body fmt assumption leads_to_contradiction s) = Inl e
              \<longrightarrow> (\<exists>m. message e = Inr m))
        \<longrightarrow> (\<exists>b. fst (prove_by_contradiction fmt assumption leads_to_contradiction s) = Inr b)))
 \<and> ((\<forall>e. fst (prove_limit_body orc expression variable limit_point expected_value s) = Inl e
         \<longrightarrow> status (obligation (snd (prove_limit orc expression variable limit_point
                                        expected_value s))) = UNKNOWN)
    \<and> ((\<forall>e. fst (prove_limit_body orc expression variable limit_point expected_value s) = Inl e
              \<longrightarrow> (\<exists>m. message e = Inr m))
        \<longrightarrow> (\<exists>b. fst (prove_limit orc expression variable limit_point expected_value s)
                 = Inr b)))
 \<and> ((\<forall>e. fst (prove_derivative_body orc function variable expected_derivative s) = Inl e
         \<longrightarrow> status (obligation (snd (prove_derivative orc function variable
                                        expected_derivative s))) = UNKNOWN)
    \<and> (\<exists>b. fst (prove_derivative orc function variable expected_derivative s) = Inr b))
 \<and> ((\<forall>e. fst (prove_integral_body orc integrand variable bounds expected_value s) = Inl e
         \<longrightarrow> status (obligation (snd (prove_integral orc integrand variable bounds
                                        expected_value s))) = UNKNOWN)
    \<and> (\<exists>b. fst (prove_integral orc integrand variable bounds expected_value s) = Inr b))"
  unfolding prove_by_symbolic_simplification_def prove_by_mathematical_induction_def
    prove_by_contradiction_def prove_limit_def prove_derivative_def prove_integral_def
  by (intro conjI try_except_logging try_except_silent simplification_handler
        induction_handler contradiction_handler limit_handler derivative_handler
        integral_handler)

section \<open>Evaluating the small oracle\<close>

lemmas toy_defs =
  poly_oracle_def lazy_oracle_def lazier_oracle_def faulty_oracle_def hostile_oracle_def
  unsupported_def X_def fresh_def ProofObligation_init_def post_init_def answering_def
  raising_def raising_unprintable_def printed_def unprintable_def
  pderiv_def pint_def const_of_def plimit_def pintegrate_def show_poly_def show_int_def


section \<open>The boundary on concrete inputs\<close>

theorem entry_points_unknown_and_return_witness:
  "(fst (prove_by_symbolic_simplification_body faulty_oracle (fresh [1] [2])) = Inl unsupported
    \<and> status (obligation (snd (prove_by_symbolic_simplification faulty_oracle (fresh [1] [2]))))
        = UNKNOWN
    \<and> (\<exists>b. fst (prove_by_symbolic_simplification faulty_oracle (fresh [1] [2])) = Inr b))
 \<and> (fst (prove_by_mathematical_induction_body (answering True) raising (fresh [1] [2]))
        = Inl (Exception ''probe failed'')
    \<and> status (obligation (snd (prove_by_mathematical_induction (answering True) raising
                                  (fresh [1] [2])))) = UNKNOWN
    \<and> (\<exists>b. fst (prove_by_mathematical_induction (answering True) raising (fresh [1] [2]))
             = Inr b))
 \<and> (fst (prove_by_contradiction_body (printed show_poly) X (\<lambda>a. raising) (fresh [1] [2]))
        = Inl (Exception ''probe failed'')
    \<and> status (obligation (snd (prove_by_contradiction (printed show_poly) X (\<lambda>a. raising)
                                  (fresh [1] [2])))) = UNKNOWN
    \<and> (\<exists>b. fst (prove_by_contradiction (printed show_poly) X (\<lambda>a. raising) (fresh [1] [2]))
             = Inr b))
 \<and> (fst (prove_limit_body faulty_oracle [1, 0, 1] X [2] [5] (fresh [1] [2])) = Inl unsupported
    \<and> status (obligation (snd (prove_limit faulty_oracle [1, 0, 1] X [2] [5] (fresh [1] [2]))))
        = UNKNOWN
    \<and> (\<exists>b. fst (prove_limit faulty_oracle [1, 0, 1] X [2] [5] (fresh [1] [2])) = Inr b))
 \<and> (fst (prove_derivative_body faulty_oracle [0, 0, 1] X [0, 2] (fresh [1] [2]))
        = Inl unsupported
    \<and> status (obligation (snd (prove_derivative faulty_oracle [0, 0, 1] X [0, 2]
                                  (fresh [1] [2])))) = UNKNOWN)
 \<and> (fst (prove_integral_body poly_oracle [0, 1] X None [0, 0, 1] (fresh [1] [2]))
        = Inl (Exception ''coefficient is not an integer'')
    \<and> status (obligation (snd (prove_integral poly_oracle [0, 1] X None [0, 0, 1]
                                  (fresh [1] [2])))) = UNKNOWN)"
proof -
  have h1: "fst (prove_by_symbolic_simplification_body faulty_oracle (fresh [1] [2]))
            = Inl unsupported"
    by (simp add: prove_by_symbolic_simplification_body_def prog_defs faulty_oracle_def)
  have h2: "fst (prove_by_mathematical_induction_body (answering True) raising (fresh [1] [2]))
            = Inl (Exception ''probe failed'')"
    by (simp add: prove_by_mathematical_induction_body_def prog_defs answering_def raising_def)
  have h3: "fst (prove_by_contradiction_body (printed show_poly) X (\<lambda>a. raising) (fresh [1] [2]))
            = Inl (Exception ''probe failed'')"
    by (simp add: prove_by_contradiction_body_def prog_defs raising_def)
  have h4: "fst (prove_limit_body faulty_oracle [1, 0, 1] X [2] [5] (fresh [1] [2]))
            = Inl unsupported"
    by (simp add: prove_limit_body_def prog_defs faulty_oracle_def)
  have h5: "fst (prove_derivative_body faulty_oracle [0, 0, 1] X [0, 2] (fresh [1] [2]))
            = Inl unsupported"
    by (simp add: prove_derivative_body_def prog_defs faulty_oracle_def)
  have h6: "fst (prove_integral_body poly_oracle [0, 1] X None [0, 0, 1] (fresh [1] [2]))
            = Inl (Exception ''coefficient is not an integer'')"
    by (simp add: prove_integral_body_def prog_defs poly_oracle_def pintegrate_def pint_def)
  have p1: "\<forall>e. fst (prove_by_symbolic_simplification_body faulty_oracle (fresh [1] [2])) = Inl e
                \<longrightarrow> (\<exists>m. message e = Inr m)"
    by (simp add: h1 unsupported_def)
  have p2: "\<forall>e. fst (prove_by_mathematical_induction_body (answering True) raising
                      (fresh [1] [2])) = Inl e \<longrightarrow> (\<exists>m. message e = Inr m)"
    by (simp add: h2)
  have p3: "\<forall>e. fst (prove_by_contradiction_body (printed show_poly) X (\<lambda>a. raising)
                      (fresh [1] [2])) = Inl e \<longrightarrow> (\<exists>m. message e = Inr m)"
    by (simp add: h3)
  have p4: "\<forall>e. fst (prove_limit_body faulty_oracle [1, 0, 1] X [2] [5] (fresh [1] [2])) = Inl e
                \<longrightarrow> (\<exists>m. message e = Inr m)"
    by (simp add: h4 unsupported_def)
  note t1 = entry_points_unknown_and_return [where orc = faulty_oracle and s = "fresh [1] [2]"
      and base_case = "answering True" and inductive_step = raising
      and fmt = "printed show_poly" and assumption = X and leads_to_contradiction = "\<lambda>a. raising"
      and expression = "[1, 0, 1]" and variable = X and limit_point = "[2]"
      and expected_value = "[5]" and expected_derivative = "[0, 2]"]
  note t2 = entry_points_unknown_and_return [where orc = poly_oracle and s = "fresh [1] [2]"
      and integrand = "[0, 1]" and variable = X and bounds = None
      and expected_value = "[0, 0, 1]"]
  note c1 = t1 [THEN conjunct1]
  note c2 = t1 [THEN conjunct2, THEN conjunct1]
  note c3 = t1 [THEN conjunct2, THEN conjunct2, THEN conjunct1]
  note c4 = t1 [THEN conjunct2, THEN conjunct2, THEN conjunct2, THEN conjunct1]
  note c5 = t1 [THEN conjunct2, THEN conjunct2, THEN conjunct2, THEN conjunct2, THEN conjunct1]
  note c6 = t2 [THEN conjunct2, THEN conjunct2, THEN conjunct2, THEN conjunct2, THEN conjunct2]
  show ?thesis
    by (intro conjI h1 h2 h3 h4 h5 h6
          c1 [THEN conjunct1, rule_format, OF h1] c1 [THEN conjunct2, THEN mp, OF p1]
          c2 [THEN conjunct1, rule_format, OF h2] c2 [THEN conjunct2, THEN mp, OF p2]
          c3 [THEN conjunct1, rule_format, OF h3] c3 [THEN conjunct2, THEN mp, OF p3]
          c4 [THEN conjunct1, rule_format, OF h4] c4 [THEN conjunct2, THEN mp, OF p4]
          c5 [THEN conjunct1, rule_format, OF h5]
          c6 [THEN conjunct1, rule_format, OF h6])
qed

section \<open>The status a strategy leaves\<close>

lemma simplification_status:
  "status (obligation (snd (prove_by_symbolic_simplification orc s))) \<in> {PROVEN, REFUTED, UNKNOWN}"
  by (simp add: simplification_defs prog_defs try_except_def split: sum.splits prod.splits)

lemma induction_status:
  "status (obligation (snd (prove_by_mathematical_induction base_case inductive_step s)))
   \<in> {PROVEN, REFUTED, UNKNOWN}"
  by (simp add: induction_defs prog_defs try_except_def split: sum.splits prod.splits)

lemma contradiction_status:
  "status (obligation (snd (prove_by_contradiction fmt assumption leads_to_contradiction s)))
   \<in> {PROVEN, REFUTED, UNKNOWN}"
  by (simp add: contradiction_defs prog_defs try_except_def split: sum.splits prod.splits)

lemma limit_status:
  "status (obligation (snd (prove_limit orc expression variable limit_point expected_value s)))
   \<in> {PROVEN, REFUTED, UNKNOWN}"
  by (simp add: limit_defs prog_defs try_except_def split: sum.splits prod.splits)

lemma derivative_status:
  "status (obligation (snd (prove_derivative orc function variable expected_derivative s)))
   \<in> {PROVEN, REFUTED, UNKNOWN}"
  by (simp add: derivative_defs prog_defs try_except_def split: sum.splits prod.splits)

lemma integral_status:
  "status (obligation (snd (prove_integral orc integrand variable bounds expected_value s)))
   \<in> {PROVEN, REFUTED, UNKNOWN}"
  by (simp add: integral_defs prog_defs try_except_def split: sum.splits prod.splits option.splits)

text \<open>
  C7. No strategy call leaves the obligation with status \<open>AXIOM\<close>: after each of the
  six entry points, on any input and from any prior status, the status is \<open>PROVEN\<close>,
  \<open>REFUTED\<close> or \<open>UNKNOWN\<close>.
\<close>

theorem strategies_never_leave_axiom:
  "status (obligation (snd (prove_by_symbolic_simplification orc s))) \<in> {PROVEN, REFUTED, UNKNOWN}
 \<and> status (obligation (snd (prove_by_mathematical_induction base_case inductive_step s)))
     \<in> {PROVEN, REFUTED, UNKNOWN}
 \<and> status (obligation (snd (prove_by_contradiction fmt assumption leads_to_contradiction s)))
     \<in> {PROVEN, REFUTED, UNKNOWN}
 \<and> status (obligation (snd (prove_limit orc expression variable limit_point expected_value s)))
     \<in> {PROVEN, REFUTED, UNKNOWN}
 \<and> status (obligation (snd (prove_derivative orc function variable expected_derivative s)))
     \<in> {PROVEN, REFUTED, UNKNOWN}
 \<and> status (obligation (snd (prove_integral orc integrand variable bounds expected_value s)))
     \<in> {PROVEN, REFUTED, UNKNOWN}"
  by (intro conjI simplification_status induction_status contradiction_status limit_status
        derivative_status integral_status)


section \<open>The returned boolean\<close>

text \<open>
  A call that returns, returns whether the final status is \<open>PROVEN\<close>; a call that
  raises leaves the status \<open>UNKNOWN\<close>.
\<close>

lemma simplification_returns:
  "(\<forall>b. fst (prove_by_symbolic_simplification orc s) = Inr b
        \<longrightarrow> b = (status (obligation (snd (prove_by_symbolic_simplification orc s))) = PROVEN))
   \<and> (\<forall>e. fst (prove_by_symbolic_simplification orc s) = Inl e
        \<longrightarrow> status (obligation (snd (prove_by_symbolic_simplification orc s))) = UNKNOWN)"
  by (simp add: simplification_defs prog_defs try_except_def split: sum.splits prod.splits)

lemma induction_returns:
  "(\<forall>b. fst (prove_by_mathematical_induction base_case inductive_step s) = Inr b
        \<longrightarrow> b = (status (obligation (snd (prove_by_mathematical_induction base_case
                                           inductive_step s))) = PROVEN))
   \<and> (\<forall>e. fst (prove_by_mathematical_induction base_case inductive_step s) = Inl e
        \<longrightarrow> status (obligation (snd (prove_by_mathematical_induction base_case
                                      inductive_step s))) = UNKNOWN)"
  by (simp add: induction_defs prog_defs try_except_def split: sum.splits prod.splits)

lemma contradiction_returns:
  "(\<forall>b. fst (prove_by_contradiction fmt assumption leads_to_contradiction s) = Inr b
        \<longrightarrow> b = (status (obligation (snd (prove_by_contradiction fmt assumption
                                           leads_to_contradiction s))) = PROVEN))
   \<and> (\<forall>e. fst (prove_by_contradiction fmt assumption leads_to_contradiction s) = Inl e
        \<longrightarrow> status (obligation (snd (prove_by_contradiction fmt assumption
                                      leads_to_contradiction s))) = UNKNOWN)"
  by (simp add: contradiction_defs prog_defs try_except_def split: sum.splits prod.splits)

lemma limit_returns:
  "(\<forall>b. fst (prove_limit orc expression variable limit_point expected_value s) = Inr b
        \<longrightarrow> b = (status (obligation (snd (prove_limit orc expression variable limit_point
                                           expected_value s))) = PROVEN))
   \<and> (\<forall>e. fst (prove_limit orc expression variable limit_point expected_value s) = Inl e
        \<longrightarrow> status (obligation (snd (prove_limit orc expression variable limit_point
                                      expected_value s))) = UNKNOWN)"
  by (simp add: limit_defs prog_defs try_except_def split: sum.splits prod.splits)

lemma derivative_returns:
  "fst (prove_derivative orc function variable expected_derivative s)
   = Inr (status (obligation (snd (prove_derivative orc function variable
                                     expected_derivative s))) = PROVEN)"
  by (simp add: derivative_defs prog_defs try_except_def split: sum.splits prod.splits)

lemma integral_returns:
  "fst (prove_integral orc integrand variable bounds expected_value s)
   = Inr (status (obligation (snd (prove_integral orc integrand variable bounds
                                     expected_value s))) = PROVEN)"
  by (simp add: integral_defs prog_defs try_except_def split: sum.splits prod.splits option.splits)

text \<open>
  C10 says that a call whose final status is \<open>UNKNOWN\<close> returns \<open>False\<close>. When the
  predicate of \<open>prove_by_contradiction\<close> raises an exception that cannot be printed,
  the final status is \<open>UNKNOWN\<close> and the call returns nothing: it raises.
\<close>

theorem raising_call_returns_nothing_counterexample:
  "status (obligation (snd (prove_by_contradiction (printed show_poly) X fails_unprintably
                              (fresh [] [])))) = UNKNOWN
 \<and> fst (prove_by_contradiction (printed show_poly) X fails_unprintably (fresh [] []))
   = Inl (Exception ''cannot print'')"
  by (simp add: contradiction_defs prog_defs try_except_def toy_defs fails_unprintably_def)

text \<open>
  C10, as the code has it. Whenever a call to one of the six entry points returns, it
  returns \<open>True\<close> if and only if the obligation's status after the call is \<open>PROVEN\<close>,
  so with a final status of \<open>REFUTED\<close> or \<open>UNKNOWN\<close> it returns \<open>False\<close>; a call that
  raises instead leaves the status \<open>UNKNOWN\<close>. \<open>prove_derivative\<close> and
  \<open>prove_integral\<close> return on every input.
\<close>

theorem returns_true_iff_proven_when_returning:
  "((\<forall>b. fst (prove_by_symbolic_simplification orc s) = Inr b
        \<longrightarrow> b = (status (obligation (snd (prove_by_symbolic_simplification orc s))) = PROVEN))
    \<and> (\<forall>e. fst (prove_by_symbolic_simplification orc s) = Inl e
        \<longrightarrow> status (obligation (snd (prove_by_symbolic_simplification orc s))) = UNKNOWN))
 \<and> ((\<forall>b. fst (prove_by_mathematical_induction base_case inductive_step s) = Inr b
        \<longrightarrow> b = (status (obligation (snd (prove_by_mathematical_induction base_case
                                           inductive_step s))) = PROVEN))
    \<and> (\<forall>e. fst (prove_by_mathematical_induction base_case inductive_step s) = Inl e
        \<longrightarrow> status (obligation (snd (prove_by_mathematical_induction base_case
                                      inductive_step s))) = UNKNOWN))
 \<and> ((\<forall>b. fst (prove_by_contradiction fmt assumption leads_to_contradiction s) = Inr b
        \<longrightarrow> b = (status (obligation (snd (prove_by_contradiction fmt assumption
                                           leads_to_contradiction s))) = PROVEN))
    \<and> (\<forall>e. fst (prove_by_contradiction fmt assumption leads_to_contradiction s) = Inl e
        \<longrightarrow> status (obligation (snd (prove_by_contradiction fmt assumption
                                      leads_to_contradiction s))) = UNKNOWN))
 \<and> ((\<forall>b. fst (prove_limit orc expression variable limit_point expected_value s) = Inr b
        \<longrightarrow> b = (status (obligation (snd (prove_limit orc expression variable limit_point
                                           expected_value s))) = PROVEN))
    \<and> (\<forall>e. fst (prove_limit orc expression variable limit_point expected_value s) = Inl e
        \<longrightarrow> status (obligation (snd (prove_limit orc expression variable limit_point
                                      expected_value s))) = UNKNOWN))
 \<and> fst (prove_derivative orc function variable expected_derivative s)
   = Inr (status (obligation (snd (prove_derivative orc function variable
                                     expected_derivative s))) = PROVEN)
 \<and> fst (prove_integral orc integrand variable bounds expected_value s)
   = Inr (status (obligation (snd (prove_integral orc integrand variable bounds
                                     expected_value s))) = PROVEN)"
  by (intro conjI simplification_returns induction_returns contradiction_returns limit_returns
        derivative_returns integral_returns)

theorem returns_true_iff_proven_when_returning_witness:
  "(fst (prove_by_symbolic_simplification poly_oracle (fresh [0, 2] [0, 2])) = Inr True
    \<and> status (obligation (snd (prove_by_symbolic_simplification poly_oracle
                                  (fresh [0, 2] [0, 2])))) = PROVEN)
 \<and> (fst (prove_by_symbolic_simplification hostile_oracle (fresh [0, 2] [0, 2]))
      = Inl unsupported
    \<and> status (obligation (snd (prove_by_symbolic_simplification hostile_oracle
                                  (fresh [0, 2] [0, 2])))) = UNKNOWN)
 \<and> (fst (prove_by_mathematical_induction (answering True) (answering False) (fresh [] []))
      = Inr False
    \<and> status (obligation (snd (prove_by_mathematical_induction (answering True)
                                  (answering False) (fresh [] [])))) \<noteq> PROVEN)
 \<and> (fst (prove_by_mathematical_induction (answering True) raising_unprintable (fresh [] []))
      = Inl (Exception ''cannot print'')
    \<and> status (obligation (snd (prove_by_mathematical_induction (answering True)
                                  raising_unprintable (fresh [] [])))) = UNKNOWN)
 \<and> (fst (prove_by_contradiction (printed show_poly) X (\<lambda>a. answering True) (fresh [] []))
      = Inr True
    \<and> status (obligation (snd (prove_by_contradiction (printed show_poly) X
                                  (\<lambda>a. answering True) (fresh [] [])))) = PROVEN)
 \<and> (fst (prove_by_contradiction (printed show_poly) X (\<lambda>a. raising_unprintable)
            (fresh [] [])) = Inl (Exception ''cannot print'')
    \<and> status (obligation (snd (prove_by_contradiction (printed show_poly) X
                                  (\<lambda>a. raising_unprintable) (fresh [] [])))) = UNKNOWN)
 \<and> (fst (prove_limit poly_oracle [1, 0, 1] X [2] [6] (fresh [] [])) = Inr False
    \<and> status (obligation (snd (prove_limit poly_oracle [1, 0, 1] X [2] [6] (fresh [] []))))
        \<noteq> PROVEN)
 \<and> (fst (prove_limit hostile_oracle [1, 0, 1] X [2] [5] (fresh [] [])) = Inl unsupported
    \<and> status (obligation (snd (prove_limit hostile_oracle [1, 0, 1] X [2] [5] (fresh [] []))))
        = UNKNOWN)"
proof -
  have r1: "fst (prove_by_symbolic_simplification poly_oracle (fresh [0, 2] [0, 2])) = Inr True"
    by (simp add: simplification_defs prog_defs try_except_def toy_defs)
  have e1: "fst (prove_by_symbolic_simplification hostile_oracle (fresh [0, 2] [0, 2]))
            = Inl unsupported"
    by (simp add: simplification_defs prog_defs try_except_def toy_defs)
  have r2: "fst (prove_by_mathematical_induction (answering True) (answering False)
                   (fresh [] [])) = Inr False"
    by (simp add: induction_defs prog_defs try_except_def toy_defs)
  have e2: "fst (prove_by_mathematical_induction (answering True) raising_unprintable
                   (fresh [] [])) = Inl (Exception ''cannot print'')"
    by (simp add: induction_defs prog_defs try_except_def toy_defs)
  have r3: "fst (prove_by_contradiction (printed show_poly) X (\<lambda>a. answering True)
                   (fresh [] [])) = Inr True"
    by (simp add: contradiction_defs prog_defs try_except_def toy_defs)
  have e3: "fst (prove_by_contradiction (printed show_poly) X (\<lambda>a. raising_unprintable)
                   (fresh [] [])) = Inl (Exception ''cannot print'')"
    by (simp add: contradiction_defs prog_defs try_except_def toy_defs)
  have r4: "fst (prove_limit poly_oracle [1, 0, 1] X [2] [6] (fresh [] [])) = Inr False"
    by (simp add: limit_defs prog_defs try_except_def toy_defs)
  have e4: "fst (prove_limit hostile_oracle [1, 0, 1] X [2] [5] (fresh [] [])) = Inl unsupported"
    by (simp add: limit_defs prog_defs try_except_def toy_defs)
  note t = returns_true_iff_proven_when_returning
  note c1 = t [THEN conjunct1]
  note c2 = t [THEN conjunct2, THEN conjunct1]
  note c3 = t [THEN conjunct2, THEN conjunct2, THEN conjunct1]
  note c4 = t [THEN conjunct2, THEN conjunct2, THEN conjunct2, THEN conjunct1]
  have a1: "status (obligation (snd (prove_by_symbolic_simplification poly_oracle
                                       (fresh [0, 2] [0, 2])))) = PROVEN"
    using c1 [THEN conjunct1, rule_format, OF r1] by simp
  have a2: "status (obligation (snd (prove_by_mathematical_induction (answering True)
                                       (answering False) (fresh [] [])))) \<noteq> PROVEN"
    using c2 [THEN conjunct1, rule_format, OF r2] by simp
  have a3: "status (obligation (snd (prove_by_contradiction (printed show_poly) X
                                       (\<lambda>a. answering True) (fresh [] [])))) = PROVEN"
    using c3 [THEN conjunct1, rule_format, OF r3] by simp
  have a4: "status (obligation (snd (prove_limit poly_oracle [1, 0, 1] X [2] [6]
                                       (fresh [] [])))) \<noteq> PROVEN"
    using c4 [THEN conjunct1, rule_format, OF r4] by simp
  show ?thesis
    by (intro conjI r1 e1 r2 e2 r3 e3 r4 e4 a1 a2 a3 a4
          c1 [THEN conjunct2, rule_format, OF e1] c2 [THEN conjunct2, rule_format, OF e2]
          c3 [THEN conjunct2, rule_format, OF e3] c4 [THEN conjunct2, rule_format, OF e4])
qed

section \<open>Contradiction: never refuted\<close>

text \<open>
  C5 says that the status is \<open>PROVEN\<close> whenever the predicate returns true, for every
  assumption. The source assigns \<open>PROVEN\<close> and then formats
  \<^verbatim>\<open>f"Assumed: {assumption}"\<close>; with an assumption whose \<^verbatim>\<open>__str__\<close> raises, that
  exception reaches the handler, which assigns \<open>UNKNOWN\<close>, logs the error and returns
  \<open>False\<close>, although the predicate returned true.
\<close>

theorem unprintable_assumption_counterexample:
  "fst (contradicts X (world (fresh [] []))) = Inr True
 \<and> prove_by_contradiction unprintable X contradicts (fresh [] [])
   = (Inr False, (fresh [] [])\<lparr>obligation := (obligation (fresh [] []))
        \<lparr>status := UNKNOWN, proof_steps := [''Error: cannot print'']\<rparr>,
        world := 1\<rparr>)"
  by (simp add: contradiction_defs prog_defs try_except_def toy_defs contradicts_def)

text \<open>
  C5, as the code has it. The status is \<open>PROVEN\<close> when the predicate returns true and
  the assumption can be printed for the log. It is \<open>UNKNOWN\<close>, never \<open>REFUTED\<close>, when
  the predicate returns false or raises, and also when the predicate returns true but
  printing the assumption raises. In particular a predicate that always returns false
  gives \<open>UNKNOWN\<close>.
\<close>

theorem contradiction_proven_or_unknown:
  "(fst (leads_to_contradiction assumption (world s)) = Inr True \<and> fmt assumption = Inr shown
      \<longrightarrow> status (obligation (snd (prove_by_contradiction fmt assumption
                                    leads_to_contradiction s))) = PROVEN)
 \<and> (fst (leads_to_contradiction assumption (world s)) = Inr True \<and> fmt assumption = Inl err
      \<longrightarrow> status (obligation (snd (prove_by_contradiction fmt assumption
                                    leads_to_contradiction s))) = UNKNOWN)
 \<and> (fst (leads_to_contradiction assumption (world s)) = Inr False
      \<longrightarrow> status (obligation (snd (prove_by_contradiction fmt assumption
                                    leads_to_contradiction s))) = UNKNOWN)
 \<and> (\<forall>e. fst (leads_to_contradiction assumption (world s)) = Inl e
      \<longrightarrow> status (obligation (snd (prove_by_contradiction fmt assumption
                                    leads_to_contradiction s))) = UNKNOWN)
 \<and> status (obligation (snd (prove_by_contradiction fmt assumption leads_to_contradiction s)))
     \<noteq> REFUTED"
  by (simp add: contradiction_defs prog_defs try_except_def split: sum.splits prod.splits)

theorem contradiction_proven_or_unknown_witness:
  "status (obligation (snd (prove_by_contradiction (printed show_poly) X (\<lambda>a. answering True)
                              (fresh [] [])))) = PROVEN
 \<and> status (obligation (snd (prove_by_contradiction unprintable X (\<lambda>a. answering True)
                              (fresh [] [])))) = UNKNOWN
 \<and> status (obligation (snd (prove_by_contradiction (printed show_poly) X (\<lambda>a. answering False)
                              (fresh [] [])))) = UNKNOWN
 \<and> status (obligation (snd (prove_by_contradiction (printed show_poly) X (\<lambda>a. raising)
                              (fresh [] [])))) = UNKNOWN"
proof (intro conjI)
  show "status (obligation (snd (prove_by_contradiction (printed show_poly) X
                                   (\<lambda>a. answering True) (fresh [] [])))) = PROVEN"
    using contradiction_proven_or_unknown
            [where leads_to_contradiction = "\<lambda>a. answering True" and assumption = X
               and s = "fresh [] []" and fmt = "printed show_poly" and shown = "show_poly X"]
    by (simp add: answering_def printed_def)
  show "status (obligation (snd (prove_by_contradiction unprintable X
                                   (\<lambda>a. answering True) (fresh [] [])))) = UNKNOWN"
    using contradiction_proven_or_unknown
            [where leads_to_contradiction = "\<lambda>a. answering True" and assumption = X
               and s = "fresh [] []" and fmt = unprintable
               and err = "Exception ''cannot print''"]
    by (simp add: answering_def unprintable_def)
  show "status (obligation (snd (prove_by_contradiction (printed show_poly) X
                                   (\<lambda>a. answering False) (fresh [] [])))) = UNKNOWN"
    using contradiction_proven_or_unknown
            [where leads_to_contradiction = "\<lambda>a. answering False" and assumption = X
               and s = "fresh [] []" and fmt = "printed show_poly"]
    by (simp add: answering_def)
  show "status (obligation (snd (prove_by_contradiction (printed show_poly) X
                                   (\<lambda>a. raising) (fresh [] [])))) = UNKNOWN"
    using contradiction_proven_or_unknown
            [where leads_to_contradiction = "\<lambda>a. raising" and assumption = X
               and s = "fresh [] []" and fmt = "printed show_poly"]
    by (simp add: raising_def)
qed

section \<open>Symbolic simplification: the three stages\<close>



section \<open>Induction: base case first\<close>

text \<open>
  C6. \<open>base_case\<close> is run first. If it answers false, the status is \<open>REFUTED\<close>, the
  log gains \<open>Base case FAILED\<close>, and \<open>inductive_step\<close> is not run: the outcome does not
  mention it and the world is the one \<open>base_case\<close> left. If \<open>base_case\<close> answers true
  and \<open>inductive_step\<close> answers false, the status is \<open>REFUTED\<close> and the log gains
  \<open>Inductive step FAILED\<close>. The status is \<open>PROVEN\<close> exactly when both answer true.
\<close>

theorem induction_protocol:
  "(base_case (world s) = (Inr False, w1) \<longrightarrow>
      prove_by_mathematical_induction base_case inductive_step s
      = (Inr False, s\<lparr>obligation := (obligation s)
           \<lparr>status := REFUTED,
            proof_steps := proof_steps (obligation s) @ [''Base case FAILED'']\<rparr>,
           world := w1\<rparr>))
 \<and> (base_case (world s) = (Inr True, w1) \<and> inductive_step w1 = (Inr False, w2) \<longrightarrow>
      prove_by_mathematical_induction base_case inductive_step s
      = (Inr False, s\<lparr>obligation := (obligation s)
           \<lparr>status := REFUTED,
            proof_steps := proof_steps (obligation s)
              @ [''Base case: '' @ check_mark @ '' PROVEN'', ''Inductive step FAILED'']\<rparr>,
           world := w2\<rparr>))
 \<and> (status (obligation (snd (prove_by_mathematical_induction base_case inductive_step s)))
      = PROVEN
    \<longleftrightarrow> fst (base_case (world s)) = Inr True
        \<and> fst (inductive_step (snd (base_case (world s)))) = Inr True)"
  by (auto simp: induction_defs prog_defs try_except_def split: sum.splits prod.splits)

theorem induction_protocol_witness:
  "prove_by_mathematical_induction (answering False) raising (fresh [] [])
   = (Inr False, (fresh [] [])\<lparr>obligation := (obligation (fresh [] []))
        \<lparr>status := REFUTED, proof_steps := [''Base case FAILED'']\<rparr>,
        world := 1\<rparr>)
 \<and> prove_by_mathematical_induction (answering True) (answering False) (fresh [] [])
   = (Inr False, (fresh [] [])\<lparr>obligation := (obligation (fresh [] []))
        \<lparr>status := REFUTED,
         proof_steps := [''Base case: '' @ check_mark @ '' PROVEN'', ''Inductive step FAILED'']\<rparr>,
        world := 2\<rparr>)
 \<and> status (obligation (snd (prove_by_mathematical_induction (answering True) (answering True)
                              (fresh [] [])))) = PROVEN"
proof (intro conjI)
  show "prove_by_mathematical_induction (answering False) raising (fresh [] [])
   = (Inr False, (fresh [] [])\<lparr>obligation := (obligation (fresh [] []))
        \<lparr>status := REFUTED, proof_steps := [''Base case FAILED'']\<rparr>,
        world := 1\<rparr>)"
    using induction_protocol [of "answering False" "fresh [] []" 1 raising 2]
    by (simp add: toy_defs)
  show "prove_by_mathematical_induction (answering True) (answering False) (fresh [] [])
   = (Inr False, (fresh [] [])\<lparr>obligation := (obligation (fresh [] []))
        \<lparr>status := REFUTED,
         proof_steps := [''Base case: '' @ check_mark @ '' PROVEN'', ''Inductive step FAILED'']\<rparr>,
        world := 2\<rparr>)"
    using induction_protocol [of "answering True" "fresh [] []" 1 "answering False" 2]
    by (simp add: toy_defs)
  show "status (obligation (snd (prove_by_mathematical_induction (answering True)
                                   (answering True) (fresh [] [])))) = PROVEN"
    using induction_protocol [of "answering True" "fresh [] []" 1 "answering True" 2]
    by (simp add: toy_defs)
qed

section \<open>Integral: zero residual, or a constant one without bounds\<close>



section \<open>Paths that append nothing to the log\<close>

text \<open>
  C3 asks that every call appends at least one entry to \<open>proof_steps\<close>. Five paths
  append none: a contradiction predicate that answers false, a derivative that differs
  from the expected one, an oracle fault inside \<open>prove_derivative\<close>, an integral that
  differs from the expected value, and an oracle fault inside \<open>prove_integral\<close>. On a
  fresh obligation, whose log is empty, each of them returns with the log still empty;
  the results below are the whole outcome of each call.
\<close>

theorem silent_paths_append_nothing:
  "proof_steps (obligation (fresh [] [])) = []
 \<and> prove_by_contradiction (printed show_poly) X (\<lambda>a. answering False) (fresh [] [])
   = (Inr False, (fresh [] [])\<lparr>world := 1\<rparr>)
 \<and> prove_derivative poly_oracle [0, 0, 1] X [0, 3] (fresh [] [])
   = (Inr False, (fresh [] [])\<lparr>obligation := (obligation (fresh [] []))\<lparr>status := REFUTED\<rparr>\<rparr>)
 \<and> prove_derivative faulty_oracle [0, 0, 1] X [0, 2] (fresh [] [])
   = (Inr False, fresh [] [])
 \<and> prove_integral poly_oracle [0, 2] X (Some ([0], [1])) [2] (fresh [] [])
   = (Inr False, (fresh [] [])\<lparr>obligation := (obligation (fresh [] []))\<lparr>status := REFUTED\<rparr>\<rparr>)
 \<and> prove_integral faulty_oracle [0, 2] X None [0, 0, 1] (fresh [] [])
   = (Inr False, fresh [] [])"
  by (simp add: contradiction_defs derivative_defs integral_defs prog_defs try_except_def
        toy_defs)

section \<open>Running a strategy again\<close>

text \<open>
  The status a strategy leaves is a function of its arguments, of the hypothesis and
  conclusion of the obligation (which no strategy changes) and of the answers of the
  probes; it does not depend on the status or the log found on entry.
\<close>

lemma simplification_keeps_claim:
  "hypothesis (obligation (snd (prove_by_symbolic_simplification orc s))) = hypothesis (obligation s)
   \<and> conclusion (obligation (snd (prove_by_symbolic_simplification orc s))) = conclusion (obligation s)"
  by (simp add: simplification_defs prog_defs try_except_def split: sum.splits prod.splits)

lemma simplification_status_depends:
  assumes "hypothesis (obligation s') = hypothesis (obligation s)"
      and "conclusion (obligation s') = conclusion (obligation s)"
  shows "status (obligation (snd (prove_by_symbolic_simplification orc s')))
         = status (obligation (snd (prove_by_symbolic_simplification orc s)))"
  using assms
  by (simp add: simplification_defs prog_defs try_except_def split: sum.splits prod.splits)

lemma limit_status_depends:
  "status (obligation (snd (prove_limit orc expression variable limit_point expected_value s')))
   = status (obligation (snd (prove_limit orc expression variable limit_point expected_value s)))"
  by (simp add: limit_defs prog_defs try_except_def split: sum.splits prod.splits)

lemma derivative_status_depends:
  "status (obligation (snd (prove_derivative orc function variable expected_derivative s')))
   = status (obligation (snd (prove_derivative orc function variable expected_derivative s)))"
  by (simp add: derivative_defs prog_defs try_except_def split: sum.splits prod.splits)

lemma integral_status_depends:
  "status (obligation (snd (prove_integral orc integrand variable bounds expected_value s')))
   = status (obligation (snd (prove_integral orc integrand variable bounds expected_value s)))"
  by (simp add: integral_defs prog_defs try_except_def split: sum.splits prod.splits option.splits)

lemma induction_status_char:
  "status (obligation (snd (prove_by_mathematical_induction base_case inductive_step s)))
   = (case fst (base_case (world s)) of
        Inl e \<Rightarrow> UNKNOWN
      | Inr b \<Rightarrow> if \<not> b then REFUTED
                 else (case fst (inductive_step (snd (base_case (world s)))) of
                         Inl e \<Rightarrow> UNKNOWN
                       | Inr i \<Rightarrow> if \<not> i then REFUTED else PROVEN))"
  by (simp add: induction_defs prog_defs try_except_def split: sum.splits prod.splits)

lemma contradiction_status_char:
  "status (obligation (snd (prove_by_contradiction fmt assumption leads_to_contradiction s)))
   = (case fst (leads_to_contradiction assumption (world s)) of
        Inl e \<Rightarrow> UNKNOWN
      | Inr c \<Rightarrow> if c then (case fmt assumption of Inl e \<Rightarrow> UNKNOWN | Inr shown \<Rightarrow> PROVEN)
                 else UNKNOWN)"
  by (simp add: contradiction_defs prog_defs try_except_def split: sum.splits prod.splits)

lemma induction_status_same_answers:
  assumes "fst (base_case (world s')) = fst (base_case (world s))
           \<and> fst (inductive_step (snd (base_case (world s'))))
               = fst (inductive_step (snd (base_case (world s))))"
  shows "status (obligation (snd (prove_by_mathematical_induction base_case inductive_step s')))
         = status (obligation (snd (prove_by_mathematical_induction base_case inductive_step s)))"
  unfolding induction_status_char using assms by (simp cong: sum.case_cong if_cong)

lemma contradiction_status_same_answers:
  assumes "fst (leads_to_contradiction assumption (world s'))
           = fst (leads_to_contradiction assumption (world s))"
  shows "status (obligation (snd (prove_by_contradiction fmt assumption leads_to_contradiction s')))
         = status (obligation (snd (prove_by_contradiction fmt assumption
                                      leads_to_contradiction s)))"
  unfolding contradiction_status_char using assms by simp

text \<open>
  C8. Running the same strategy a second time, on the obligation as the first run left
  it and with the same arguments, leaves the same status as the first run. The oracle is
  a function, which is the determinism the claim assumes. For the two strategies driven
  by caller-supplied probes, unchanged inputs means that the probes answer on the second
  run as they did on the first, in the world the first run left behind.
\<close>

theorem rerun_reproduces_status:
  "status (obligation (snd (prove_by_symbolic_simplification orc
                               (snd (prove_by_symbolic_simplification orc s)))))
    = status (obligation (snd (prove_by_symbolic_simplification orc s)))
  \<and> (fst (base_case (world (snd (prove_by_mathematical_induction base_case inductive_step s))))
       = fst (base_case (world s))
     \<and> fst (inductive_step (snd (base_case (world (snd (prove_by_mathematical_induction
                                                        base_case inductive_step s))))))
       = fst (inductive_step (snd (base_case (world s))))
     \<longrightarrow> status (obligation (snd (prove_by_mathematical_induction base_case inductive_step
                  (snd (prove_by_mathematical_induction base_case inductive_step s)))))
         = status (obligation (snd (prove_by_mathematical_induction base_case inductive_step s))))
  \<and> (fst (leads_to_contradiction assumption
             (world (snd (prove_by_contradiction fmt assumption leads_to_contradiction s))))
       = fst (leads_to_contradiction assumption (world s))
     \<longrightarrow> status (obligation (snd (prove_by_contradiction fmt assumption leads_to_contradiction
                  (snd (prove_by_contradiction fmt assumption leads_to_contradiction s)))))
         = status (obligation (snd (prove_by_contradiction fmt assumption
                                      leads_to_contradiction s))))
  \<and> status (obligation (snd (prove_limit orc expression variable limit_point expected_value
              (snd (prove_limit orc expression variable limit_point expected_value s)))))
    = status (obligation (snd (prove_limit orc expression variable limit_point expected_value s)))
  \<and> status (obligation (snd (prove_derivative orc function variable expected_derivative
              (snd (prove_derivative orc function variable expected_derivative s)))))
    = status (obligation (snd (prove_derivative orc function variable expected_derivative s)))
  \<and> status (obligation (snd (prove_integral orc integrand variable bounds expected_value
              (snd (prove_integral orc integrand variable bounds expected_value s)))))
    = status (obligation (snd (prove_integral orc integrand variable bounds expected_value s)))"
proof (intro conjI impI)
  show "status (obligation (snd (prove_by_symbolic_simplification orc
                               (snd (prove_by_symbolic_simplification orc s)))))
    = status (obligation (snd (prove_by_symbolic_simplification orc s)))"
    by (rule simplification_status_depends) (simp_all add: simplification_keeps_claim)
next
  assume "fst (base_case (world (snd (prove_by_mathematical_induction base_case inductive_step s))))
       = fst (base_case (world s))
     \<and> fst (inductive_step (snd (base_case (world (snd (prove_by_mathematical_induction
                                                        base_case inductive_step s))))))
       = fst (inductive_step (snd (base_case (world s))))"
  then show "status (obligation (snd (prove_by_mathematical_induction base_case inductive_step
                  (snd (prove_by_mathematical_induction base_case inductive_step s)))))
         = status (obligation (snd (prove_by_mathematical_induction base_case inductive_step s)))"
    by (rule induction_status_same_answers)
next
  assume "fst (leads_to_contradiction assumption
             (world (snd (prove_by_contradiction fmt assumption leads_to_contradiction s))))
       = fst (leads_to_contradiction assumption (world s))"
  then show "status (obligation (snd (prove_by_contradiction fmt assumption leads_to_contradiction
                  (snd (prove_by_contradiction fmt assumption leads_to_contradiction s)))))
         = status (obligation (snd (prove_by_contradiction fmt assumption
                                      leads_to_contradiction s)))"
    by (rule contradiction_status_same_answers)
qed (rule limit_status_depends derivative_status_depends integral_status_depends)+

theorem rerun_reproduces_status_witness:
  "status (obligation (snd (prove_by_mathematical_induction (answering True) (answering False)
              (snd (prove_by_mathematical_induction (answering True) (answering False)
                      (fresh [] []))))))
   = status (obligation (snd (prove_by_mathematical_induction (answering True) (answering False)
                                (fresh [] []))))
 \<and> status (obligation (snd (prove_by_contradiction (printed show_poly) X (\<lambda>a. answering True)
              (snd (prove_by_contradiction (printed show_poly) X (\<lambda>a. answering True) (fresh [] []))))))
   = status (obligation (snd (prove_by_contradiction (printed show_poly) X (\<lambda>a. answering True)
                                (fresh [] []))))"
proof -
  note t = rerun_reproduces_status [where s = "fresh [] []" and base_case = "answering True"
      and inductive_step = "answering False" and fmt = "printed show_poly" and assumption = X
      and leads_to_contradiction = "\<lambda>a. answering True"]
  have b: "fst (answering True (world (snd (prove_by_mathematical_induction (answering True)
                  (answering False) (fresh [] []))))) = fst (answering True (world (fresh [] [])))
     \<and> fst (answering False (snd (answering True (world (snd (prove_by_mathematical_induction
                  (answering True) (answering False) (fresh [] [])))))))
       = fst (answering False (snd (answering True (world (fresh [] [])))))"
    by (simp add: answering_def)
  have c: "fst (answering True (world (snd (prove_by_contradiction (printed show_poly) X
                  (\<lambda>a. answering True) (fresh [] [])))))
           = fst (answering True (world (fresh [] [])))"
    by (simp add: answering_def)
  note a1 = t [THEN conjunct2, THEN conjunct1, rule_format, OF b]
  note a2 = t [THEN conjunct2, THEN conjunct2, THEN conjunct1, rule_format, OF c]
  show ?thesis by (intro conjI a1 a2)
qed

section \<open>A fresh obligation\<close>

text \<open>
  C9. A newly constructed \<open>ProofObligation(name, hypothesis, conclusion, proof_method)\<close>,
  that is, one built with the two defaulted arguments left out, has status \<open>UNKNOWN\<close>
  and an empty \<open>proof_steps\<close> list.
\<close>

theorem new_obligation_unknown_and_empty:
  "status (ProofObligation_init n h c m None None) = UNKNOWN
   \<and> proof_steps (ProofObligation_init n h c m None None) = []"
  by (simp add: ProofObligation_init_def post_init_def)

end
